theory Spec2Isabelle
  imports Main
begin

section \<open>Values shared by the middleware and the route handlers\<close>

text \<open>
  Rows returned by the datastore and JSON request bodies are JavaScript objects: finite
  maps from property names to JSON values. A missing property reads as \<open>undefined\<close>,
  which is \<open>None\<close> here.
\<close>

datatype jval =
    JNull
  | JBool bool
  | JNum int
  | JStr string
  | JArr "jval list"
  | JObj "(string \<times> jval) list"

type_synonym row = "string \<Rightarrow> jval option"

text \<open>JavaScript truthiness, as used by \<open>if (x)\<close> and \<open>!x\<close>.\<close>

fun truthy :: "jval option \<Rightarrow> bool" where
  "truthy None = False"
| "truthy (Some JNull) = False"
| "truthy (Some (JBool b)) = b"
| "truthy (Some (JNum n)) = (n \<noteq> 0)"
| "truthy (Some (JStr s)) = (s \<noteq> [])"
| "truthy (Some (JArr xs)) = True"
| "truthy (Some (JObj kvs)) = True"

text \<open>Truthiness of a value that is a string or \<open>undefined\<close> (headers, environment
  variables, token claims).\<close>

fun truthy_str :: "string option \<Rightarrow> bool" where
  "truthy_str None = False"
| "truthy_str (Some s) = (s \<noteq> [])"

section \<open>errorHandler.ts\<close>

text \<open>
  \<open>ApiError\<close> carries a status code; every other exception (\<open>Error\<close>, the errors of
  the JWT library, a \<open>TypeError\<close>) has a message only.
\<close>

datatype thrown =
    ApiError nat string
  | Error string

fun err_message :: "thrown \<Rightarrow> string" where
  "err_message (ApiError sc m) = m"
| "err_message (Error m) = m"

record env =
  SUPABASE_JWT_SECRET :: "string option"
  JWT_SECRET :: "string option"
  NODE_ENV :: "string option"

text \<open>The JSON bodies the handlers send. \<open>JsonError m st\<close> is
  \<open>{success: false, error: {message: m, stack?}}\<close> with \<open>st\<close> telling whether the
  stack is included.\<close>

datatype body =
    JsonError string bool
  | JsonData "row option"
  | JsonList "row list" nat
  | JsonSuccess
  | JsonValidation "string list"

record response =
  status :: nat
  json :: body

definition errorHandler :: "env \<Rightarrow> thrown \<Rightarrow> response" where
  "errorHandler e err =
     \<lparr> status = (case err of ApiError statusCode m \<Rightarrow> statusCode | Error m \<Rightarrow> 500),
       json = JsonError (if err_message err = [] then ''Something went wrong'' else err_message err)
                        (NODE_ENV e = Some ''development'') \<rparr>"

section \<open>lib/supabase.ts: getUserById\<close>

record pg_error =
  pg_code :: string
  pg_message :: string

text \<open>The \<open>{data, error}\<close> object every datastore call resolves to.\<close>

record 'a pg_result =
  data :: "'a option"
  error :: "pg_error option"

text \<open>
  \<open>getUserById q userId\<close>: \<open>q userId\<close> is the awaited query
  \<open>supabase.from('profiles').select('*').eq('id', userId).single()\<close>. The function
  throws when the result carries an error and returns \<open>data\<close> (a row or \<open>null\<close>)
  otherwise.
\<close>

definition getUserById :: "(string \<Rightarrow> row pg_result) \<Rightarrow> string \<Rightarrow> thrown + row option" where
  "getUserById q userId =
     (case error (q userId) of
        Some er \<Rightarrow> Inl (Error (''Error fetching user: '' @ pg_message er))
      | None \<Rightarrow> Inr (data (q userId)))"

section \<open>middleware/auth.ts\<close>

text \<open>
  The decoded payload of a token: the claims \<open>sub\<close> and \<open>id\<close> are strings when
  present. \<open>jwt.decode\<close> yields \<open>null\<close>, a string (payload that is not JSON) or an
  object; \<open>jwt.verify\<close> either returns or throws. Both belong to the JWT library and
  are parameters of the middleware.
\<close>

type_synonym payload = "string \<Rightarrow> string option"

datatype decoded = DNull | DString string | DObject payload

record jwt =
  jwt_decode :: "string \<Rightarrow> decoded"
  jwt_verify :: "string \<Rightarrow> string \<Rightarrow> bool"

text \<open>The part of the Express request the middleware reads and writes.\<close>

record request =
  authorization :: "string option"
  user :: "row option"
  userId :: "jval option"

text \<open>\<open>next()\<close> continues the request; \<open>next(error)\<close> hands the error to
  \<open>errorHandler\<close>. Both carry the request object as the middleware leaves it. The
  condition \<open>!a || !b\<close> of the source is evaluated left to right, as two tests.\<close>

datatype outcome = Next request | Fail thrown request

definition startsWith :: "string \<Rightarrow> string \<Rightarrow> bool" where
  "startsWith s p = (take (length p) s = p)"

text \<open>\<open>String.prototype.split\<close> with a separator of one character.\<close>

fun str_split :: "char \<Rightarrow> string \<Rightarrow> string list" where
  "str_split sep [] = [[]]"
| "str_split sep (c # cs) =
     (if c = sep then [] # str_split sep cs
      else (case str_split sep cs of
              [] \<Rightarrow> [[c]]
            | w # ws \<Rightarrow> (c # w) # ws))"

text \<open>Array indexing: \<open>undefined\<close> out of range.\<close>

definition nth_opt :: "'a list \<Rightarrow> nat \<Rightarrow> 'a option" where
  "nth_opt xs i = (if i < length xs then Some (xs ! i) else None)"

text \<open>\<open>authHeader.split(' ')[1]\<close>\<close>

definition header_token :: "string \<Rightarrow> string option" where
  "header_token authHeader = nth_opt (str_split CHR '' '' authHeader) 1"

text \<open>
  Lines 33 to 73 of \<open>auth\<close>: from the token to the \<open>userId\<close> to look up, or the
  exception thrown on the way. A decoded string is refused as \<open>Invalid token format\<close>
  whether it is empty (the test \<open>!decodedToken\<close>) or not (the test on \<open>typeof\<close>).
  The error \<open>jwt.verify\<close> throws in the \<open>id\<close> branch is one of the library, with a
  message and no status code.
\<close>

definition auth_subject :: "env \<Rightarrow> jwt \<Rightarrow> string \<Rightarrow> thrown + string" where
  "auth_subject e j token =
     (case jwt_decode j token of
        DNull \<Rightarrow> Inl (Error ''Invalid token format'')
      | DString s \<Rightarrow> Inl (Error ''Invalid token format'')
      | DObject decodedToken \<Rightarrow>
          if truthy_str (decodedToken ''sub'') then
            (if \<not> truthy_str (SUPABASE_JWT_SECRET e)
             then Inl (ApiError 500 ''Supabase JWT secret not configured'')
             else if jwt_verify j token (the (SUPABASE_JWT_SECRET e))
             then Inr (the (decodedToken ''sub''))
             else Inl (ApiError 401 ''Invalid or expired Supabase token''))
          else if truthy_str (decodedToken ''id'') then
            (if \<not> truthy_str (JWT_SECRET e)
             then Inl (ApiError 500 ''JWT secret not configured'')
             else if jwt_verify j token (the (JWT_SECRET e))
             then Inr (the (decodedToken ''id''))
             else Inl (Error ''JsonWebTokenError''))
          else Inl (Error ''Invalid token payload''))"

text \<open>The body of the inner \<open>try\<close> of \<open>auth\<close> (lines 31 to 87).\<close>

definition auth_try :: "env \<Rightarrow> jwt \<Rightarrow> (string \<Rightarrow> row pg_result) \<Rightarrow> request \<Rightarrow> string \<Rightarrow> thrown + request" where
  "auth_try e j q req token =
     (case auth_subject e j token of
        Inl err \<Rightarrow> Inl err
      | Inr uid \<Rightarrow>
          (case getUserById q uid of
             Inl err \<Rightarrow> Inl err
           | Inr None \<Rightarrow> Inl (ApiError 401 ''User not found'')
           | Inr (Some u) \<Rightarrow> Inr (req\<lparr>user := Some u, userId := u ''id''\<rparr>)))"

definition auth :: "env \<Rightarrow> jwt \<Rightarrow> (string \<Rightarrow> row pg_result) \<Rightarrow> request \<Rightarrow> outcome" where
  "auth e j q req =
     (if \<not> truthy_str (authorization req)
      then Fail (ApiError 401 ''Authorization token required'') req
      else if \<not> startsWith (the (authorization req)) ''Bearer ''
      then Fail (ApiError 401 ''Authorization token required'') req
      else if \<not> truthy_str (header_token (the (authorization req)))
      then Fail (ApiError 401 ''Authorization token required'') req
      else (case auth_try e j q req (the (header_token (the (authorization req)))) of
              Inl err \<Rightarrow> Fail (ApiError 401 ''Invalid or expired token'') req
            | Inr req' \<Rightarrow> Next req'))"

text \<open>
  Lines 116 to 148 of \<open>optionalAuth\<close>: the \<open>userId\<close> to look up, or \<open>None\<close> where
  the source leaves with \<open>return next()\<close>.
\<close>

definition optional_subject :: "env \<Rightarrow> jwt \<Rightarrow> string \<Rightarrow> string option" where
  "optional_subject e j token =
     (case jwt_decode j token of
        DNull \<Rightarrow> None
      | DString s \<Rightarrow> None
      | DObject decodedToken \<Rightarrow>
          if truthy_str (decodedToken ''sub'') then decodedToken ''sub''
          else if truthy_str (decodedToken ''id'') then
            (if \<not> truthy_str (JWT_SECRET e) then None
             else if jwt_verify j token (the (JWT_SECRET e)) then decodedToken ''id''
             else None)
          else None)"

definition optionalAuth :: "env \<Rightarrow> jwt \<Rightarrow> (string \<Rightarrow> row pg_result) \<Rightarrow> request \<Rightarrow> outcome" where
  "optionalAuth e j q req =
     (if \<not> truthy_str (authorization req)
      then Next req
      else if \<not> startsWith (the (authorization req)) ''Bearer ''
      then Next req
      else if \<not> truthy_str (header_token (the (authorization req)))
      then Next req
      else (case optional_subject e j (the (header_token (the (authorization req)))) of
              None \<Rightarrow> Next req
            | Some uid \<Rightarrow>
                (case getUserById q uid of
                   Inl err \<Rightarrow> Next req
                 | Inr None \<Rightarrow> Next req
                 | Inr (Some u) \<Rightarrow> Next (req\<lparr>user := Some u, userId := u ''id''\<rparr>))))"

section \<open>The datastore\<close>

text \<open>
  The three tables the routes use, as lists of rows, and the calls the handlers make on
  the datastore client. A call resolves to \<open>{data, error}\<close>. \<open>fault\<close> is a transport
  or store failure: when set, every call resolves to that error and changes nothing.
  \<open>.single()\<close> resolves to the row when exactly one row is selected and to the error
  \<open>PGRST116\<close> otherwise (the code the subscription route names as "no rows returned").
\<close>

datatype table = Profiles | Dreams | Subscriptions

record db =
  tables :: "table \<Rightarrow> row list"
  fault :: "pg_error option"

definition matching :: "string \<Rightarrow> jval \<Rightarrow> row list \<Rightarrow> row list" where
  "matching col v rs = filter (\<lambda>r. r col = Some v) rs"

definition PGRST116 :: pg_error where
  "PGRST116 = \<lparr> pg_code = ''PGRST116'', pg_message = ''JSON object requested, multiple (or no) rows returned'' \<rparr>"

definition single :: "row list \<Rightarrow> row pg_result" where
  "single rs =
     (case rs of
        [r] \<Rightarrow> \<lparr> data = Some r, error = None \<rparr>
      | _ \<Rightarrow> \<lparr> data = None, error = Some PGRST116 \<rparr>)"

text \<open>\<open>from(t).select('*').eq(col, v)\<close>\<close>

definition select_eq :: "db \<Rightarrow> table \<Rightarrow> string \<Rightarrow> jval \<Rightarrow> (row list) pg_result" where
  "select_eq d t col v =
     (case fault d of
        Some er \<Rightarrow> \<lparr> data = None, error = Some er \<rparr>
      | None \<Rightarrow> \<lparr> data = Some (matching col v (tables d t)), error = None \<rparr>)"

text \<open>\<open>from(t).select('*').eq(col, v).single()\<close>\<close>

definition select_eq_single :: "db \<Rightarrow> table \<Rightarrow> string \<Rightarrow> jval \<Rightarrow> row pg_result" where
  "select_eq_single d t col v =
     (case fault d of
        Some er \<Rightarrow> \<lparr> data = None, error = Some er \<rparr>
      | None \<Rightarrow> single (matching col v (tables d t)))"

text \<open>\<open>from(t).update(upd).eq(col, v)\<close>: the properties of \<open>upd\<close> overwrite those of
  every selected row.\<close>

definition update_eq :: "db \<Rightarrow> table \<Rightarrow> row \<Rightarrow> string \<Rightarrow> jval \<Rightarrow> db" where
  "update_eq d t upd col v =
     (case fault d of
        Some er \<Rightarrow> d
      | None \<Rightarrow> d\<lparr>tables := (tables d)(t := map (\<lambda>r. if r col = Some v then r ++ upd else r) (tables d t))\<rparr>)"

text \<open>\<open>from(t).update(upd).eq(col, v).select().single()\<close>\<close>

definition update_eq_single :: "db \<Rightarrow> table \<Rightarrow> row \<Rightarrow> string \<Rightarrow> jval \<Rightarrow> row pg_result \<times> db" where
  "update_eq_single d t upd col v =
     (case fault d of
        Some er \<Rightarrow> (\<lparr> data = None, error = Some er \<rparr>, d)
      | None \<Rightarrow> (single (map (\<lambda>r. r ++ upd) (matching col v (tables d t))), update_eq d t upd col v))"

text \<open>\<open>from(t).delete().eq(col, v)\<close>\<close>

definition delete_eq :: "db \<Rightarrow> table \<Rightarrow> string \<Rightarrow> jval \<Rightarrow> pg_error option \<times> db" where
  "delete_eq d t col v =
     (case fault d of
        Some er \<Rightarrow> (Some er, d)
      | None \<Rightarrow> (None, d\<lparr>tables := (tables d)(t := filter (\<lambda>r. r col \<noteq> Some v) (tables d t))\<rparr>))"

text \<open>\<open>from(t).insert([r]).select().single()\<close>\<close>

definition insert_single :: "db \<Rightarrow> table \<Rightarrow> row \<Rightarrow> row pg_result \<times> db" where
  "insert_single d t r =
     (case fault d of
        Some er \<Rightarrow> (\<lparr> data = None, error = Some er \<rparr>, d)
      | None \<Rightarrow> (\<lparr> data = Some r, error = None \<rparr>, d\<lparr>tables := (tables d)(t := tables d t @ [r])\<rparr>))"

text \<open>The query \<open>getUserById\<close> sends.\<close>

definition profile_by_id :: "db \<Rightarrow> string \<Rightarrow> row pg_result" where
  "profile_by_id d uid = select_eq_single d Profiles ''id'' (JStr uid)"

section \<open>Routes\<close>

text \<open>
  A route is \<open>auth\<close> followed by a handler; whatever either passes to \<open>next(error)\<close>
  reaches \<open>errorHandler\<close>. A handler returns what it sends (or throws) and the
  datastore as it leaves it. \<open>errors\<close> is the array of \<open>validationResult(req)\<close>,
  filled by the validators that run before the handler; \<open>disableCache\<close> only sets
  response headers.
\<close>

definition with_auth ::
  "env \<Rightarrow> jwt \<Rightarrow> db \<Rightarrow> request \<Rightarrow> (request \<Rightarrow> (thrown + response) \<times> db) \<Rightarrow> response \<times> db" where
  "with_auth e j d req handler =
     (case auth e j (profile_by_id d) req of
        Fail err r \<Rightarrow> (errorHandler e err, d)
      | Next req' \<Rightarrow>
          (case handler req' of
             (Inl err, d') \<Rightarrow> (errorHandler e err, d')
           | (Inr resp, d') \<Rightarrow> (resp, d')))"

subsection \<open>routes/dreams.ts\<close>

text \<open>\<open>GET /api/dreams\<close>; \<open>count\<close> is \<open>null\<close> as the query asks for none, and the
  page and the page size only reach the log.\<close>

definition get_dreams :: "db \<Rightarrow> string option \<Rightarrow> request \<Rightarrow> (thrown + response) \<times> db" where
  "get_dreams d query_userId req =
     (if \<not> truthy_str query_userId then (Inl (ApiError 400 ''User ID is required''), d)
      else (case error (select_eq d Dreams ''user_id'' (JStr (the query_userId))) of
              Some er \<Rightarrow> (Inl (ApiError 500 (''Error fetching dreams: '' @ pg_message er)), d)
            | None \<Rightarrow>
                (Inr \<lparr> status = 200,
                       json = JsonList (case data (select_eq d Dreams ''user_id'' (JStr (the query_userId))) of
                                          None \<Rightarrow> [] | Some dreams \<Rightarrow> dreams) 0 \<rparr>, d)))"

text \<open>\<open>GET /api/dreams/:id\<close>\<close>

definition get_dream :: "db \<Rightarrow> string list \<Rightarrow> string \<Rightarrow> request \<Rightarrow> (thrown + response) \<times> db" where
  "get_dream d errors ident req =
     (if errors \<noteq> [] then (Inr \<lparr> status = 400, json = JsonValidation errors \<rparr>, d)
      else (case error (select_eq_single d Dreams ''id'' (JStr ident)) of
              Some er \<Rightarrow> (Inl (ApiError 500 (pg_message er)), d)
            | None \<Rightarrow>
                (case data (select_eq_single d Dreams ''id'' (JStr ident)) of
                   None \<Rightarrow> (Inl (ApiError 404 ''Dream not found''), d)
                 | Some dream \<Rightarrow> (Inr \<lparr> status = 200, json = JsonData (Some dream) \<rparr>, d))))"

text \<open>\<open>PUT /api/dreams/:id\<close>\<close>

definition put_dream :: "db \<Rightarrow> string list \<Rightarrow> string \<Rightarrow> row \<Rightarrow> request \<Rightarrow> (thrown + response) \<times> db" where
  "put_dream d errors ident body req =
     (if errors \<noteq> [] then (Inr \<lparr> status = 400, json = JsonValidation errors \<rparr>, d)
      else (case update_eq_single d Dreams (body(''user_id'' := None)) ''id'' (JStr ident) of
              (res, d') \<Rightarrow>
                (case error res of
                   Some er \<Rightarrow> (Inl (ApiError 500 (pg_message er)), d')
                 | None \<Rightarrow>
                     (case data res of
                        None \<Rightarrow> (Inl (ApiError 404 ''Dream not found''), d')
                      | Some dream \<Rightarrow> (Inr \<lparr> status = 200, json = JsonData (Some dream) \<rparr>, d')))))"

text \<open>\<open>DELETE /api/dreams/:id\<close>\<close>

definition delete_dream :: "db \<Rightarrow> string list \<Rightarrow> string \<Rightarrow> request \<Rightarrow> (thrown + response) \<times> db" where
  "delete_dream d errors ident req =
     (if errors \<noteq> [] then (Inr \<lparr> status = 400, json = JsonValidation errors \<rparr>, d)
      else (case delete_eq d Dreams ''id'' (JStr ident) of
              (Some er, d') \<Rightarrow> (Inl (ApiError 500 (pg_message er)), d')
            | (None, d') \<Rightarrow> (Inr \<lparr> status = 200, json = JsonSuccess \<rparr>, d')))"

subsection \<open>routes/subscriptions.ts\<close>

text \<open>
  Strict equality \<open>===\<close> of two values read from different objects: primitives compare
  by type and value, \<open>undefined\<close> equals \<open>undefined\<close>, and two arrays or two objects are
  never the same reference.
\<close>

fun strict_eq :: "jval option \<Rightarrow> jval option \<Rightarrow> bool" where
  "strict_eq None None = True"
| "strict_eq (Some JNull) (Some JNull) = True"
| "strict_eq (Some (JBool a)) (Some (JBool b)) = (a = b)"
| "strict_eq (Some (JNum a)) (Some (JNum b)) = (a = b)"
| "strict_eq (Some (JStr a)) (Some (JStr b)) = (a = b)"
| "strict_eq x y = False"

text \<open>\<open>s.includes(t)\<close> on strings: \<open>t\<close> occurs in \<open>s\<close>.\<close>

fun includes_str :: "string \<Rightarrow> string \<Rightarrow> bool" where
  "includes_str [] t = (t = [])"
| "includes_str (c # cs) t = (take (length t) (c # cs) = t \<or> includes_str cs t)"

text \<open>
  \<open>req.user?.role?.includes('admin')\<close>: \<open>undefined\<close> (falsy) when the user or the role
  is missing or \<open>null\<close>, a substring test on a string, a membership test on an array,
  and a \<open>TypeError\<close> on any other role, which has no \<open>includes\<close>.
\<close>

definition role_includes_admin :: "row option \<Rightarrow> thrown + bool" where
  "role_includes_admin u =
     (case u of
        None \<Rightarrow> Inr False
      | Some usr \<Rightarrow>
          (case usr ''role'' of
             None \<Rightarrow> Inr False
           | Some JNull \<Rightarrow> Inr False
           | Some (JStr s) \<Rightarrow> Inr (includes_str s ''admin'')
           | Some (JArr xs) \<Rightarrow> Inr (List.member xs (JStr ''admin''))
           | Some other \<Rightarrow> Inl (Error ''req.user?.role?.includes is not a function'')))"

text \<open>The test \<open>owner !== req.userId && !req.user?.role?.includes('admin')\<close> that the
  three mutating subscription handlers make before they throw 403.\<close>

definition not_owner_nor_admin :: "jval option \<Rightarrow> request \<Rightarrow> thrown + bool" where
  "not_owner_nor_admin owner req =
     (if strict_eq owner (userId req) then Inr False
      else (case role_includes_admin (user req) of
              Inl err \<Rightarrow> Inl err
            | Inr b \<Rightarrow> Inr (\<not> b)))"

text \<open>The object \<open>{tier: t, is_premium: t !== 'free'}\<close>; a property whose value is
  \<open>undefined\<close> is not sent.\<close>

definition tier_update :: "jval option \<Rightarrow> row" where
  "tier_update t =
     (\<lambda>k. if k = ''tier'' then t
          else if k = ''is_premium'' then Some (JBool (\<not> strict_eq t (Some (JStr ''free''))))
          else None)"

text \<open>\<open>from('profiles').update(upd).eq('id', owner)\<close>, awaited without reading the
  result; a filter value \<open>undefined\<close> selects no row.\<close>

definition update_profile_of :: "db \<Rightarrow> jval option \<Rightarrow> row \<Rightarrow> db" where
  "update_profile_of d owner upd =
     (case owner of
        None \<Rightarrow> d
      | Some v \<Rightarrow> update_eq d Profiles upd ''id'' v)"

text \<open>\<open>POST /api/subscriptions\<close>\<close>

definition post_subscription :: "db \<Rightarrow> string list \<Rightarrow> row \<Rightarrow> request \<Rightarrow> (thrown + response) \<times> db" where
  "post_subscription d errors subscriptionData req =
     (if errors \<noteq> [] then (Inr \<lparr> status = 400, json = JsonValidation errors \<rparr>, d)
      else (case not_owner_nor_admin (subscriptionData ''user_id'') req of
              Inl err \<Rightarrow> (Inl err, d)
            | Inr True \<Rightarrow> (Inl (ApiError 403 ''Cannot create subscription for another user''), d)
            | Inr False \<Rightarrow>
                (case insert_single d Subscriptions subscriptionData of
                   (res, d1) \<Rightarrow>
                     (case error res of
                        Some er \<Rightarrow> (Inl (ApiError 500 (pg_message er)), d1)
                      | None \<Rightarrow>
                          (Inr \<lparr> status = 201, json = JsonData (data res) \<rparr>,
                           update_profile_of d1 (subscriptionData ''user_id'')
                             (tier_update (subscriptionData ''tier'')))))))"

text \<open>\<open>PUT /api/subscriptions/:id\<close>\<close>

definition put_subscription :: "db \<Rightarrow> string list \<Rightarrow> string \<Rightarrow> row \<Rightarrow> request \<Rightarrow> (thrown + response) \<times> db" where
  "put_subscription d errors ident body req =
     (if errors \<noteq> [] then (Inr \<lparr> status = 400, json = JsonValidation errors \<rparr>, d)
      else (case error (select_eq_single d Subscriptions ''id'' (JStr ident)) of
              Some fetchError \<Rightarrow> (Inl (ApiError 500 (pg_message fetchError)), d)
            | None \<Rightarrow>
                (case data (select_eq_single d Subscriptions ''id'' (JStr ident)) of
                   None \<Rightarrow> (Inl (ApiError 404 ''Subscription not found''), d)
                 | Some subscription \<Rightarrow>
                     (case not_owner_nor_admin (subscription ''user_id'') req of
                        Inl err \<Rightarrow> (Inl err, d)
                      | Inr True \<Rightarrow> (Inl (ApiError 403 ''Cannot update subscription for another user''), d)
                      | Inr False \<Rightarrow>
                          (case update_eq_single d Subscriptions (body(''user_id'' := None)) ''id'' (JStr ident) of
                             (res, d1) \<Rightarrow>
                               (case error res of
                                  Some er \<Rightarrow> (Inl (ApiError 500 (pg_message er)), d1)
                                | None \<Rightarrow>
                                    (Inr \<lparr> status = 200, json = JsonData (data res) \<rparr>,
                                     if truthy ((body(''user_id'' := None)) ''tier'')
                                     then update_profile_of d1 (subscription ''user_id'')
                                            (tier_update ((body(''user_id'' := None)) ''tier''))
                                     else d1)))))))"

text \<open>\<open>PUT /api/subscriptions/:id/cancel\<close>; \<open>now\<close> is \<open>new Date().toISOString()\<close>.\<close>

definition cancel_subscription :: "db \<Rightarrow> string \<Rightarrow> string \<Rightarrow> request \<Rightarrow> (thrown + response) \<times> db" where
  "cancel_subscription d now ident req =
     (case error (select_eq_single d Subscriptions ''id'' (JStr ident)) of
        Some fetchError \<Rightarrow> (Inl (ApiError 500 (pg_message fetchError)), d)
      | None \<Rightarrow>
          (case data (select_eq_single d Subscriptions ''id'' (JStr ident)) of
             None \<Rightarrow> (Inl (ApiError 404 ''Subscription not found''), d)
           | Some subscription \<Rightarrow>
               (case not_owner_nor_admin (subscription ''user_id'') req of
                  Inl err \<Rightarrow> (Inl err, d)
                | Inr True \<Rightarrow> (Inl (ApiError 403 ''Cannot cancel subscription for another user''), d)
                | Inr False \<Rightarrow>
                    (case update_eq_single d Subscriptions
                            [''status'' \<mapsto> JStr ''cancelled'', ''end_date'' \<mapsto> JStr now]
                            ''id'' (JStr ident) of
                       (res, d1) \<Rightarrow>
                         (case error res of
                            Some er \<Rightarrow> (Inl (ApiError 500 (pg_message er)), d1)
                          | None \<Rightarrow>
                              (Inr \<lparr> status = 200, json = JsonData (data res) \<rparr>,
                               update_profile_of d1 (subscription ''user_id'')
                                 [''tier'' \<mapsto> JStr ''free'', ''is_premium'' \<mapsto> JBool False]))))))"

subsection \<open>routes/profile.ts\<close>




section \<open>A small deployment, for concrete runs\<close>

text \<open>
  Both secrets configured; two users \<open>u1\<close> and \<open>u2\<close> with the role \<open>user\<close>; one dream
  and one subscription, both owned by \<open>u1\<close>. The tokens: \<open>p1\<close> is signed by the
  platform for \<open>sub = u1\<close>, \<open>l2\<close> is signed locally for \<open>id = u2\<close>, \<open>forged\<close> claims
  \<open>sub = u1\<close> and carries no valid signature, \<open>both\<close> has \<open>sub = u1\<close> and \<open>id = u2\<close>
  and a platform signature, \<open>nosub\<close> has the empty string as \<open>sub\<close>, \<open>id = u2\<close> and a
  local signature, and \<open>ghost\<close> is signed by the platform for a user \<open>u9\<close> that has no
  profile.
\<close>

definition example_env :: env where
  "example_env =
     \<lparr> SUPABASE_JWT_SECRET = Some ''platform-secret'',
       JWT_SECRET = Some ''local-secret'',
       NODE_ENV = Some ''production'' \<rparr>"

definition example_jwt :: jwt where
  "example_jwt =
     \<lparr> jwt_decode = (\<lambda>t.
         if t = ''p1'' then DObject [''sub'' \<mapsto> ''u1'']
         else if t = ''l2'' then DObject [''id'' \<mapsto> ''u2'']
         else if t = ''forged'' then DObject [''sub'' \<mapsto> ''u1'']
         else if t = ''both'' then DObject [''sub'' \<mapsto> ''u1'', ''id'' \<mapsto> ''u2'']
         else if t = ''nosub'' then DObject [''sub'' \<mapsto> [], ''id'' \<mapsto> ''u2'']
         else if t = ''ghost'' then DObject [''sub'' \<mapsto> ''u9'']
         else DNull),
       jwt_verify = (\<lambda>t secret.
         (t = ''p1'' \<or> t = ''both'' \<or> t = ''ghost'') \<and> secret = ''platform-secret''
         \<or> (t = ''l2'' \<or> t = ''nosub'') \<and> secret = ''local-secret'') \<rparr>"

definition profile_u1 :: row where
  "profile_u1 = [''id'' \<mapsto> JStr ''u1'', ''role'' \<mapsto> JStr ''user'',
                 ''tier'' \<mapsto> JStr ''premium'', ''is_premium'' \<mapsto> JBool True]"

definition profile_u2 :: row where
  "profile_u2 = [''id'' \<mapsto> JStr ''u2'', ''role'' \<mapsto> JStr ''user'',
                 ''tier'' \<mapsto> JStr ''free'', ''is_premium'' \<mapsto> JBool False]"

definition dream_d1 :: row where
  "dream_d1 = [''id'' \<mapsto> JStr ''d1'', ''user_id'' \<mapsto> JStr ''u1'', ''title'' \<mapsto> JStr ''Flying'']"

definition subscription_s1 :: row where
  "subscription_s1 = [''id'' \<mapsto> JStr ''s1'', ''user_id'' \<mapsto> JStr ''u1'',
                       ''tier'' \<mapsto> JStr ''premium'', ''status'' \<mapsto> JStr ''active'']"

definition example_db :: db where
  "example_db =
     \<lparr> tables = (\<lambda>t. case t of
                       Profiles \<Rightarrow> [profile_u1, profile_u2]
                     | Dreams \<Rightarrow> [dream_d1]
                     | Subscriptions \<Rightarrow> [subscription_s1]),
       fault = None \<rparr>"

definition example_db_down :: db where
  "example_db_down = example_db\<lparr>fault := Some \<lparr> pg_code = ''08006'', pg_message = ''connection failure'' \<rparr>\<rparr>"

text \<open>A request as it arrives: the header \<open>Authorization: Bearer t\<close> and no identity.\<close>

definition bearer :: "string \<Rightarrow> request" where
  "bearer t = \<lparr> authorization = Some (''Bearer '' @ t), user = None, userId = None \<rparr>"


text \<open>The request object a middleware run ends with.\<close>

fun request_of :: "outcome \<Rightarrow> request" where
  "request_of (Next req) = req"
| "request_of (Fail err req) = req"

section \<open>Header parsing\<close>

lemma str_split_not_Nil: "str_split sep s \<noteq> []"
  by (induction s) (auto split: list.splits)

lemma hd_str_split: "hd (str_split sep s) = takeWhile (\<lambda>c. c \<noteq> sep) s"
  by (induction s) (auto split: list.splits simp: str_split_not_Nil)

lemma str_split_append_sep:
  "sep \<notin> set w \<Longrightarrow> str_split sep (w @ sep # rest) = w # str_split sep rest"
  by (induction w) (auto split: list.splits)

lemma startsWith_Bearer: "startsWith h ''Bearer '' \<Longrightarrow> h = ''Bearer'' @ CHR '' '' # drop 7 h"
proof -
  assume "startsWith h ''Bearer ''"
  then have "take 7 h = ''Bearer ''" by (simp add: startsWith_def eval_nat_numeral)
  then have "h = ''Bearer '' @ drop 7 h" by (metis append_take_drop_id)
  then show ?thesis by simp
qed

text \<open>After the prefix \<open>Bearer \<close>, the token is what stands before the next space.\<close>

lemma header_token_Bearer:
  assumes "startsWith h ''Bearer ''"
  shows "header_token h = Some (takeWhile (\<lambda>c. c \<noteq> CHR '' '') (drop 7 h))"
proof -
  have "str_split CHR '' '' h = ''Bearer'' # str_split CHR '' '' (drop 7 h)"
    using startsWith_Bearer [OF assms] str_split_append_sep [of "CHR '' ''" "''Bearer''" "drop 7 h"]
    by simp
  moreover have "str_split CHR '' '' (drop 7 h) \<noteq> []" by (rule str_split_not_Nil)
  ultimately show ?thesis
    using hd_str_split [of "CHR '' ''" "drop 7 h"]
    by (cases "str_split CHR '' '' (drop 7 h)") (simp_all add: header_token_def nth_opt_def)
qed

section \<open>The two authenticators on a request that carries a token\<close>

lemma truthy_str_the: "truthy_str v \<Longrightarrow> v = Some (the v) \<and> the v \<noteq> []"
  by (cases v) simp_all

lemma auth_on_token:
  assumes "authorization req = Some h" "startsWith h ''Bearer ''" "header_token h = Some token" "token \<noteq> []"
  shows "auth e j q req =
           (case auth_try e j q req token of
              Inl err \<Rightarrow> Fail (ApiError 401 ''Invalid or expired token'') req
            | Inr req' \<Rightarrow> Next req')"
proof -
  from assms(2) have "h \<noteq> []" by (auto simp: startsWith_def)
  with assms show ?thesis by (simp add: auth_def)
qed

lemma optionalAuth_on_token:
  assumes "authorization req = Some h" "startsWith h ''Bearer ''" "header_token h = Some token" "token \<noteq> []"
  shows "optionalAuth e j q req =
           (case optional_subject e j token of
              None \<Rightarrow> Next req
            | Some uid \<Rightarrow>
                (case getUserById q uid of
                   Inl err \<Rightarrow> Next req
                 | Inr None \<Rightarrow> Next req
                 | Inr (Some u) \<Rightarrow> Next (req\<lparr>user := Some u, userId := u ''id''\<rparr>)))"
proof -
  from assms(2) have "h \<noteq> []" by (auto simp: startsWith_def)
  with assms show ?thesis by (simp add: optionalAuth_def)
qed

text \<open>When \<open>auth\<close> finds a subject: the payload is an object, and the branch its claims
  select has its secret configured and the signature verified against that secret.\<close>

lemma auth_subject_Inr_iff:
  "auth_subject e j token = Inr uid \<longleftrightarrow>
     (\<exists>p. jwt_decode j token = DObject p \<and>
        (if truthy_str (p ''sub'')
         then truthy_str (SUPABASE_JWT_SECRET e) \<and> jwt_verify j token (the (SUPABASE_JWT_SECRET e))
              \<and> p ''sub'' = Some uid
         else truthy_str (p ''id'') \<and> truthy_str (JWT_SECRET e)
              \<and> jwt_verify j token (the (JWT_SECRET e)) \<and> p ''id'' = Some uid))"
  by (auto simp: auth_subject_def split: decoded.splits dest: truthy_str_the)

lemma optional_subject_of_auth_subject:
  "auth_subject e j token = Inr uid \<Longrightarrow> optional_subject e j token = Some uid"
  by (auto simp: auth_subject_def optional_subject_def split: decoded.splits if_splits
      dest: truthy_str_the)

text \<open>\<open>auth\<close> either fails and leaves the request as it was, or attaches a record that
  \<open>getUserById\<close> returned; \<open>optionalAuth\<close> either leaves the request as it was or
  attaches such a record.\<close>

lemma auth_cases:
  "(\<exists>err. auth e j q req = Fail err req)
   \<or> (\<exists>uid u. getUserById q uid = Inr (Some u)
             \<and> auth e j q req = Next (req\<lparr>user := Some u, userId := u ''id''\<rparr>))"
  by (auto simp: auth_def auth_try_def split: sum.splits option.splits)

lemma optionalAuth_cases:
  "optionalAuth e j q req = Next req
   \<or> (\<exists>uid u. getUserById q uid = Inr (Some u)
             \<and> optionalAuth e j q req = Next (req\<lparr>user := Some u, userId := u ''id''\<rparr>))"
  by (auto simp: optionalAuth_def split: sum.splits option.splits)

text \<open>Strict authentication only ever fails with 401, under one of two messages.\<close>

lemma auth_fails_with_401:
  "auth e j q req = Fail err r \<Longrightarrow>
     r = req \<and> (err = ApiError 401 ''Authorization token required''
              \<or> err = ApiError 401 ''Invalid or expired token'')"
  by (auto simp: auth_def split: if_splits sum.splits)

text \<open>Strict authentication continues only with a verified token and a resolved user.\<close>

lemma auth_accepts_verified_only:
  assumes "auth e j q req = Next req'"
  shows "\<exists>h token uid u. authorization req = Some h \<and> header_token h = Some token
           \<and> auth_subject e j token = Inr uid \<and> getUserById q uid = Inr (Some u)
           \<and> req' = req\<lparr>user := Some u, userId := u ''id''\<rparr>"
  using assms
  by (auto simp: auth_def auth_try_def split: if_splits sum.splits option.splits dest!: truthy_str_the)

text \<open>On a payload with a truthy \<open>sub\<close>, \<open>optionalAuth\<close> never consults \<open>jwt.verify\<close>:
  two JWT libraries that decode alike give the same outcome, whatever they verify.\<close>

lemma optionalAuth_sub_ignores_signature:
  assumes "authorization req = Some h" "startsWith h ''Bearer ''" "header_token h = Some token" "token \<noteq> []"
    and "jwt_decode j token = DObject p" and "truthy_str (p ''sub'')"
    and "jwt_decode j' = jwt_decode j"
  shows "optionalAuth e j' q req = optionalAuth e j q req"
  using assms(5-7)
  by (simp add: optionalAuth_on_token [OF assms(1-4)] optional_subject_def)

section \<open>The datastore and the routes\<close>

lemma single_Some: "data (single rs) = Some r \<Longrightarrow> rs = [r]"
  by (auto simp: single_def split: list.splits)

text \<open>The record \<open>getUserById\<close> resolves has the id it was asked for.\<close>

lemma getUserById_profile_id:
  assumes "getUserById (profile_by_id d) uid = Inr (Some u)"
  shows "u ''id'' = Some (JStr uid)"
proof -
  from assms have "data (profile_by_id d uid) = Some u" and "fault d = None"
    by (auto simp: getUserById_def profile_by_id_def select_eq_single_def split: option.splits)
  then have "matching ''id'' (JStr uid) (tables d Profiles) = [u]"
    by (auto simp: profile_by_id_def select_eq_single_def dest: single_Some)
  then have "u \<in> set (filter (\<lambda>r. r ''id'' = Some (JStr uid)) (tables d Profiles))"
    by (simp add: matching_def)
  then show ?thesis by simp
qed

lemma with_auth_Next:
  "auth e j (profile_by_id d) req = Next req' \<Longrightarrow>
   with_auth e j d req handler =
     (case handler req' of
        (Inl err, d') \<Rightarrow> (errorHandler e err, d')
      | (Inr resp, d') \<Rightarrow> (resp, d'))"
  by (simp add: with_auth_def)





subsection \<open>The ownership test of the subscription handlers\<close>

lemma not_owner_nor_admin_False_iff:
  "not_owner_nor_admin owner req = Inr False \<longleftrightarrow>
     strict_eq owner (userId req) \<or> role_includes_admin (user req) = Inr True"
  by (auto simp: not_owner_nor_admin_def split: sum.splits)

text \<open>The three mutating subscription handlers change the datastore only for the owner
  or an administrator, and answer 403 before any write otherwise.\<close>

lemma post_subscription_guard:
  assumes "post_subscription d errors b req = (r, d')" and "d' \<noteq> d"
  shows "strict_eq (b ''user_id'') (userId req) \<or> role_includes_admin (user req) = Inr True"
  using assms
  by (auto simp: post_subscription_def not_owner_nor_admin_False_iff [symmetric]
      split: option.splits sum.splits bool.splits prod.splits if_splits)

lemma put_subscription_guard:
  assumes "put_subscription d errors ident b req = (r, d')" and "d' \<noteq> d"
  shows "\<exists>s. data (select_eq_single d Subscriptions ''id'' (JStr ident)) = Some s
           \<and> (strict_eq (s ''user_id'') (userId req) \<or> role_includes_admin (user req) = Inr True)"
  using assms
  by (auto simp: put_subscription_def not_owner_nor_admin_False_iff [symmetric]
      split: option.splits sum.splits bool.splits prod.splits if_splits)

lemma cancel_subscription_guard:
  assumes "cancel_subscription d now ident req = (r, d')" and "d' \<noteq> d"
  shows "\<exists>s. data (select_eq_single d Subscriptions ''id'' (JStr ident)) = Some s
           \<and> (strict_eq (s ''user_id'') (userId req) \<or> role_includes_admin (user req) = Inr True)"
  using assms
  by (auto simp: cancel_subscription_def not_owner_nor_admin_False_iff [symmetric]
      split: option.splits sum.splits bool.splits prod.splits)

lemma cancel_subscription_403:
  assumes "data (select_eq_single d Subscriptions ''id'' (JStr ident)) = Some s"
    and "error (select_eq_single d Subscriptions ''id'' (JStr ident)) = None"
    and "not_owner_nor_admin (s ''user_id'') req = Inr True"
  shows "cancel_subscription d now ident req =
           (Inl (ApiError 403 ''Cannot cancel subscription for another user''), d)"
  using assms by (simp add: cancel_subscription_def)

section \<open>Concrete runs on the small deployment\<close>

lemma header_token_of_bearer:
  assumes "CHR '' '' \<notin> set t"
  shows "header_token (''Bearer '' @ t) = Some t"
proof -
  have "startsWith (''Bearer '' @ t) ''Bearer ''" by (simp add: startsWith_def)
  from header_token_Bearer [OF this] assms show ?thesis
    by (auto simp: takeWhile_eq_all_conv)
qed

lemma auth_bearer:
  assumes "t \<noteq> []" and "CHR '' '' \<notin> set t"
  shows "auth e j q (bearer t) =
           (case auth_try e j q (bearer t) t of
              Inl err \<Rightarrow> Fail (ApiError 401 ''Invalid or expired token'') (bearer t)
            | Inr req' \<Rightarrow> Next req')"
proof (rule auth_on_token)
  show "authorization (bearer t) = Some (''Bearer '' @ t)" by (simp add: bearer_def)
  show "startsWith (''Bearer '' @ t) ''Bearer ''" by (simp add: startsWith_def)
  show "header_token (''Bearer '' @ t) = Some t" by (rule header_token_of_bearer [OF assms(2)])
  show "t \<noteq> []" by (rule assms(1))
qed

lemma optionalAuth_bearer:
  assumes "t \<noteq> []" and "CHR '' '' \<notin> set t"
  shows "optionalAuth e j q (bearer t) =
           (case optional_subject e j t of
              None \<Rightarrow> Next (bearer t)
            | Some uid \<Rightarrow>
                (case getUserById q uid of
                   Inl err \<Rightarrow> Next (bearer t)
                 | Inr None \<Rightarrow> Next (bearer t)
                 | Inr (Some u) \<Rightarrow> Next ((bearer t)\<lparr>user := Some u, userId := u ''id''\<rparr>)))"
proof (rule optionalAuth_on_token)
  show "authorization (bearer t) = Some (''Bearer '' @ t)" by (simp add: bearer_def)
  show "startsWith (''Bearer '' @ t) ''Bearer ''" by (simp add: startsWith_def)
  show "header_token (''Bearer '' @ t) = Some t" by (rule header_token_of_bearer [OF assms(2)])
  show "t \<noteq> []" by (rule assms(1))
qed

lemma example_rows:
  "profile_u1 ''id'' = Some (JStr ''u1'')" "profile_u1 ''role'' = Some (JStr ''user'')"
  "profile_u2 ''id'' = Some (JStr ''u2'')" "profile_u2 ''role'' = Some (JStr ''user'')"
  "dream_d1 ''id'' = Some (JStr ''d1'')" "dream_d1 ''user_id'' = Some (JStr ''u1'')"
  "subscription_s1 ''id'' = Some (JStr ''s1'')" "subscription_s1 ''user_id'' = Some (JStr ''u1'')"
  by (simp_all add: profile_u1_def profile_u2_def dream_d1_def subscription_s1_def)

lemma example_profiles:
  "profile_by_id example_db ''u1'' = \<lparr> data = Some profile_u1, error = None \<rparr>"
  "profile_by_id example_db ''u2'' = \<lparr> data = Some profile_u2, error = None \<rparr>"
  "profile_by_id example_db ''u9'' = \<lparr> data = None, error = Some PGRST116 \<rparr>"
  "profile_by_id example_db_down ''u1'' =
     \<lparr> data = None, error = Some \<lparr> pg_code = ''08006'', pg_message = ''connection failure'' \<rparr> \<rparr>"
  by (simp_all add: profile_by_id_def select_eq_single_def example_db_def example_db_down_def
      matching_def single_def example_rows)

lemma example_subjects:
  "auth_subject example_env example_jwt ''p1'' = Inr ''u1''"
  "auth_subject example_env example_jwt ''l2'' = Inr ''u2''"
  "auth_subject example_env example_jwt ''both'' = Inr ''u1''"
  "auth_subject example_env example_jwt ''nosub'' = Inr ''u2''"
  "auth_subject example_env example_jwt ''ghost'' = Inr ''u9''"
  "auth_subject example_env example_jwt ''forged'' = Inl (ApiError 401 ''Invalid or expired Supabase token'')"
  by (simp_all add: auth_subject_def example_env_def example_jwt_def)

lemma example_auth:
  "auth example_env example_jwt (profile_by_id example_db) (bearer ''p1'') =
     Next ((bearer ''p1'')\<lparr>user := Some profile_u1, userId := Some (JStr ''u1'')\<rparr>)"
  "auth example_env example_jwt (profile_by_id example_db) (bearer ''l2'') =
     Next ((bearer ''l2'')\<lparr>user := Some profile_u2, userId := Some (JStr ''u2'')\<rparr>)"
  "auth example_env example_jwt (profile_by_id example_db) (bearer ''both'') =
     Next ((bearer ''both'')\<lparr>user := Some profile_u1, userId := Some (JStr ''u1'')\<rparr>)"
  "auth example_env example_jwt (profile_by_id example_db) (bearer ''nosub'') =
     Next ((bearer ''nosub'')\<lparr>user := Some profile_u2, userId := Some (JStr ''u2'')\<rparr>)"
  "auth example_env example_jwt (profile_by_id example_db) (bearer ''forged'') =
     Fail (ApiError 401 ''Invalid or expired token'') (bearer ''forged'')"
  by (simp_all add: auth_bearer auth_try_def getUserById_def
      example_subjects example_profiles example_rows)

lemma example_optional_subjects:
  "optional_subject example_env example_jwt ''forged'' = Some ''u1''"
  "optional_subject example_env example_jwt ''p1'' = Some ''u1''"
  "optional_subject example_env example_jwt ''both'' = Some ''u1''"
  "optional_subject example_env example_jwt ''ghost'' = Some ''u9''"
  by (simp_all add: optional_subject_def example_env_def example_jwt_def)

lemma example_optionalAuth:
  "optionalAuth example_env example_jwt (profile_by_id example_db) (bearer ''forged'') =
     Next ((bearer ''forged'')\<lparr>user := Some profile_u1, userId := Some (JStr ''u1'')\<rparr>)"
  "optionalAuth example_env example_jwt (profile_by_id example_db) (bearer ''both'') =
     Next ((bearer ''both'')\<lparr>user := Some profile_u1, userId := Some (JStr ''u1'')\<rparr>)"
  by (simp_all add: optionalAuth_bearer getUserById_def
      example_optional_subjects example_profiles example_rows)

lemma example_errorHandler:
  "m \<noteq> [] \<Longrightarrow>
   errorHandler example_env (ApiError sc m) = \<lparr> status = sc, json = JsonError m False \<rparr>"
  by (simp add: errorHandler_def example_env_def)

section \<open>The claims\<close>

text \<open>
  C1. Claim: in both authenticators, once the payload selects an issuer branch, the
  signature is verified against that branch's secret, and identity is attached only if
  that verification succeeds. Strict \<open>auth\<close> does so (\<open>auth_accepts_verified_only\<close>
  with \<open>auth_subject_Inr_iff\<close>). \<open>optionalAuth\<close> does not in its \<open>sub\<close> branch: the
  token \<open>forged\<close> claims \<open>sub = u1\<close>, verifies under neither secret, is refused by
  \<open>auth\<close>, and still has the profile of \<open>u1\<close> attached by \<open>optionalAuth\<close>.
\<close>

theorem optionalAuth_accepts_forged_sub:
  "optional_subject example_env example_jwt ''forged'' = Some ''u1''
 \<and> \<not> jwt_verify example_jwt ''forged'' ''platform-secret''
 \<and> \<not> jwt_verify example_jwt ''forged'' ''local-secret''
 \<and> optionalAuth example_env example_jwt (profile_by_id example_db) (bearer ''forged'') =
     Next ((bearer ''forged'')\<lparr>user := Some profile_u1, userId := Some (JStr ''u1'')\<rparr>)
 \<and> auth example_env example_jwt (profile_by_id example_db) (bearer ''forged'') =
     Fail (ApiError 401 ''Invalid or expired token'') (bearer ''forged'')"
  by (simp add: example_optional_subjects example_optionalAuth example_auth) (simp add: example_jwt_def)

text \<open>
  C2. Claim: every mutating operation on subscriptions, profiles and dreams is persisted
  only for the owner or an administrator, and fails with 403 before any write otherwise.
  The subscription handlers do so (\<open>post_subscription_guard\<close>,
  \<open>put_subscription_guard\<close>, \<open>cancel_subscription_guard\<close>). The dream handlers make
  no such test: \<open>u2\<close>, an ordinary user, deletes and rewrites the dream \<open>d1\<close> of
  \<open>u1\<close> and is answered 200 each time, while the same user is refused with 403 when
  cancelling the subscription of \<open>u1\<close>.
\<close>

theorem dream_mutations_skip_ownership:
  "auth example_env example_jwt (profile_by_id example_db) (bearer ''l2'') =
     Next ((bearer ''l2'')\<lparr>user := Some profile_u2, userId := Some (JStr ''u2'')\<rparr>)
 \<and> not_owner_nor_admin (dream_d1 ''user_id'')
       ((bearer ''l2'')\<lparr>user := Some profile_u2, userId := Some (JStr ''u2'')\<rparr>) = Inr True
 \<and> fst (with_auth example_env example_jwt example_db (bearer ''l2'')
          (delete_dream example_db [] ''d1'')) = \<lparr> status = 200, json = JsonSuccess \<rparr>
 \<and> tables (snd (with_auth example_env example_jwt example_db (bearer ''l2'')
          (delete_dream example_db [] ''d1''))) Dreams = []
 \<and> status (fst (with_auth example_env example_jwt example_db (bearer ''l2'')
          (put_dream example_db [] ''d1'' [''title'' \<mapsto> JStr ''Hijacked'']))) = 200
 \<and> map (\<lambda>r. r ''title'')
       (tables (snd (with_auth example_env example_jwt example_db (bearer ''l2'')
          (put_dream example_db [] ''d1'' [''title'' \<mapsto> JStr ''Hijacked'']))) Dreams)
     = [Some (JStr ''Hijacked'')]
 \<and> with_auth example_env example_jwt example_db (bearer ''l2'')
       (cancel_subscription example_db ''2026-01-01T00:00:00.000Z'' ''s1'')
     = (\<lparr> status = 403, json = JsonError ''Cannot cancel subscription for another user'' False \<rparr>,
        example_db)"
proof -
  have a: "auth example_env example_jwt (profile_by_id example_db) (bearer ''l2'') =
     Next ((bearer ''l2'')\<lparr>user := Some profile_u2, userId := Some (JStr ''u2'')\<rparr>)"
    by (rule example_auth)
  have n: "not_owner_nor_admin (Some (JStr ''u1''))
       ((bearer ''l2'')\<lparr>user := Some profile_u2, userId := Some (JStr ''u2'')\<rparr>) = Inr True"
    by (simp add: not_owner_nor_admin_def role_includes_admin_def example_rows)
  have del: "delete_dream example_db [] ''d1'' r =
       (Inr \<lparr> status = 200, json = JsonSuccess \<rparr>,
        example_db\<lparr>tables := (tables example_db)(Dreams := [])\<rparr>)" for r
    by (simp add: delete_dream_def delete_eq_def example_db_def example_rows)
  have put: "put_dream example_db [] ''d1'' [''title'' \<mapsto> JStr ''Hijacked''] r =
       (Inr \<lparr> status = 200,
              json = JsonData (Some (dream_d1 ++ [''title'' \<mapsto> JStr ''Hijacked''](''user_id'' := None))) \<rparr>,
        example_db\<lparr>tables := (tables example_db)
           (Dreams := [dream_d1 ++ [''title'' \<mapsto> JStr ''Hijacked''](''user_id'' := None)])\<rparr>)" for r
    by (simp add: put_dream_def update_eq_single_def update_eq_def matching_def single_def
        example_db_def example_rows)
  have sel: "select_eq_single example_db Subscriptions ''id'' (JStr ''s1'') =
       \<lparr> data = Some subscription_s1, error = None \<rparr>"
    by (simp add: select_eq_single_def matching_def single_def example_db_def example_rows)
  have can: "cancel_subscription example_db ''2026-01-01T00:00:00.000Z'' ''s1''
       ((bearer ''l2'')\<lparr>user := Some profile_u2, userId := Some (JStr ''u2'')\<rparr>) =
       (Inl (ApiError 403 ''Cannot cancel subscription for another user''), example_db)"
    by (rule cancel_subscription_403 [where s = subscription_s1])
       (simp_all add: sel example_rows n)
  show ?thesis
    by (simp add: a n del put can with_auth_Next [OF a] example_rows example_errorHandler)
qed

text \<open>
  C3. Claim: strict authentication answers every verifier or resolver failure with 401
  and one generic message, and a missing signing secret with 500. The first half holds
  (\<open>auth_fails_with_401\<close>: \<open>auth\<close> never fails with anything but 401). The second does
  not: the error \<open>ApiError(500, ...)\<close> for a missing secret is thrown inside the
  \<open>try\<close> whose \<open>catch\<close> replaces every error by the generic 401, so the client of a
  deployment without the platform secret, or without the local one, gets 401.
\<close>

theorem missing_secret_surfaces_401:
  "auth_subject (example_env\<lparr>SUPABASE_JWT_SECRET := None\<rparr>) example_jwt ''p1'' =
     Inl (ApiError 500 ''Supabase JWT secret not configured'')
 \<and> auth (example_env\<lparr>SUPABASE_JWT_SECRET := None\<rparr>) example_jwt (profile_by_id example_db) (bearer ''p1'') =
     Fail (ApiError 401 ''Invalid or expired token'') (bearer ''p1'')
 \<and> auth_subject (example_env\<lparr>JWT_SECRET := None\<rparr>) example_jwt ''l2'' =
     Inl (ApiError 500 ''JWT secret not configured'')
 \<and> auth (example_env\<lparr>JWT_SECRET := None\<rparr>) example_jwt (profile_by_id example_db) (bearer ''l2'') =
     Fail (ApiError 401 ''Invalid or expired token'') (bearer ''l2'')
 \<and> errorHandler example_env (ApiError 401 ''Invalid or expired token'') =
     \<lparr> status = 401, json = JsonError ''Invalid or expired token'' False \<rparr>"
proof -
  have 1: "auth_subject (example_env\<lparr>SUPABASE_JWT_SECRET := None\<rparr>) example_jwt ''p1'' =
     Inl (ApiError 500 ''Supabase JWT secret not configured'')"
    by (simp add: auth_subject_def example_env_def example_jwt_def)
  have 2: "auth_subject (example_env\<lparr>JWT_SECRET := None\<rparr>) example_jwt ''l2'' =
     Inl (ApiError 500 ''JWT secret not configured'')"
    by (simp add: auth_subject_def example_env_def example_jwt_def)
  show ?thesis
    by (simp add: 1 2 auth_bearer auth_try_def example_errorHandler)
qed

text \<open>
  C4. Claim: a lookup that hits a transport or store error makes authentication fail
  with a 500-class error for the client. It does not: with the datastore down, the valid
  token \<open>p1\<close> is answered 401 by \<open>auth\<close>, and no failure of \<open>auth\<close> there has a
  status of 500 or more.
\<close>

theorem lookup_error_counterexample:
  "auth_subject example_env example_jwt ''p1'' = Inr ''u1''
 \<and> error (profile_by_id example_db_down ''u1'') =
       Some \<lparr> pg_code = ''08006'', pg_message = ''connection failure'' \<rparr>
 \<and> auth example_env example_jwt (profile_by_id example_db_down) (bearer ''p1'') =
       Fail (ApiError 401 ''Invalid or expired token'') (bearer ''p1'')
 \<and> status (errorHandler example_env (ApiError 401 ''Invalid or expired token'')) = 401
 \<and> \<not> (\<exists>err r. auth example_env example_jwt (profile_by_id example_db_down) (bearer ''p1'') = Fail err r
              \<and> 500 \<le> status (errorHandler example_env err))"
proof -
  have a: "auth example_env example_jwt (profile_by_id example_db_down) (bearer ''p1'') =
       Fail (ApiError 401 ''Invalid or expired token'') (bearer ''p1'')"
    by (simp add: auth_bearer auth_try_def getUserById_def example_subjects example_profiles)
  show ?thesis
    by (simp add: a example_subjects example_profiles example_errorHandler)
qed

text \<open>
  C4, as the code has it: for every user lookup that resolves to an error,
  \<open>getUserById\<close> throws an error without status code (which \<open>errorHandler\<close> would
  report as 500). Strict authentication makes the lookup for the subject of a verified
  token and replaces the error by the generic 401 \<open>Invalid or expired token\<close>. Optional
  authentication makes the lookup for every subject it extracts, verified or not, and
  continues with the request unchanged.
\<close>

theorem lookup_error_collapsed:
  assumes "authorization req = Some h" "startsWith h ''Bearer ''" "header_token h = Some token" "token \<noteq> []"
    and "error (q uid) = Some er"
  shows "getUserById q uid = Inl (Error (''Error fetching user: '' @ pg_message er))
       \<and> status (errorHandler e (Error (''Error fetching user: '' @ pg_message er))) = 500
       \<and> (auth_subject e j token = Inr uid \<longrightarrow>
            auth e j q req = Fail (ApiError 401 ''Invalid or expired token'') req)
       \<and> status (errorHandler e (ApiError 401 ''Invalid or expired token'')) = 401
       \<and> (optional_subject e j token = Some uid \<longrightarrow> optionalAuth e j q req = Next req)"
  using assms(5)
  by (simp add: auth_on_token [OF assms(1-4)] optionalAuth_on_token [OF assms(1-4)]
      auth_try_def getUserById_def errorHandler_def)

theorem lookup_error_collapsed_witness:
  "authorization (bearer ''p1'') = Some (''Bearer '' @ ''p1'')
 \<and> header_token (''Bearer '' @ ''p1'') = Some ''p1''
 \<and> auth_subject example_env example_jwt ''p1'' = Inr ''u1''
 \<and> error (profile_by_id example_db_down ''u1'') =
       Some \<lparr> pg_code = ''08006'', pg_message = ''connection failure'' \<rparr>
 \<and> getUserById (profile_by_id example_db_down) ''u1'' = Inl (Error ''Error fetching user: connection failure'')
 \<and> auth example_env example_jwt (profile_by_id example_db_down) (bearer ''p1'') =
       Fail (ApiError 401 ''Invalid or expired token'') (bearer ''p1'')
 \<and> optionalAuth example_env example_jwt (profile_by_id example_db_down) (bearer ''p1'') = Next (bearer ''p1'')
 \<and> authorization (bearer ''forged'') = Some (''Bearer '' @ ''forged'')
 \<and> header_token (''Bearer '' @ ''forged'') = Some ''forged''
 \<and> auth_subject example_env example_jwt ''forged'' = Inl (ApiError 401 ''Invalid or expired Supabase token'')
 \<and> optional_subject example_env example_jwt ''forged'' = Some ''u1''
 \<and> optionalAuth example_env example_jwt (profile_by_id example_db_down) (bearer ''forged'') = Next (bearer ''forged'')"
proof -
  have 1: "authorization (bearer ''p1'') = Some (''Bearer '' @ ''p1'')" by (simp add: bearer_def)
  have 2: "startsWith (''Bearer '' @ ''p1'') ''Bearer ''" by (simp add: startsWith_def)
  have 3: "header_token (''Bearer '' @ ''p1'') = Some ''p1''" by (rule header_token_of_bearer) simp
  have 4: "''p1'' \<noteq> []" by simp
  have 5: "auth_subject example_env example_jwt ''p1'' = Inr ''u1''" by (rule example_subjects)
  have 6: "optional_subject example_env example_jwt ''p1'' = Some ''u1''"
    by (rule example_optional_subjects)
  have 7: "error (profile_by_id example_db_down ''u1'') =
       Some \<lparr> pg_code = ''08006'', pg_message = ''connection failure'' \<rparr>"
    by (simp add: example_profiles)
  have f1: "authorization (bearer ''forged'') = Some (''Bearer '' @ ''forged'')" by (simp add: bearer_def)
  have f2: "startsWith (''Bearer '' @ ''forged'') ''Bearer ''" by (simp add: startsWith_def)
  have f3: "header_token (''Bearer '' @ ''forged'') = Some ''forged''" by (rule header_token_of_bearer) simp
  have f4: "''forged'' \<noteq> []" by simp
  have f5: "auth_subject example_env example_jwt ''forged'' = Inl (ApiError 401 ''Invalid or expired Supabase token'')"
    by (rule example_subjects)
  have f6: "optional_subject example_env example_jwt ''forged'' = Some ''u1''"
    by (rule example_optional_subjects)
  from lookup_error_collapsed [where q = "profile_by_id example_db_down" and uid = "''u1''"
         and e = example_env and j = example_jwt, OF 1 2 3 4 7]
       lookup_error_collapsed [where q = "profile_by_id example_db_down" and uid = "''u1''"
         and e = example_env and j = example_jwt, OF f1 f2 f3 f4 7]
       1 3 5 6 7 f1 f3 f5 f6
  show ?thesis by simp
qed

text \<open>
  C5. For every request whose Authorization header is absent, does not start with
  \<open>Bearer \<close>, or has an empty token after the prefix, strict authentication rejects
  with 401 (\<open>Authorization token required\<close>) and optional authentication continues with
  the request as it arrived, so with no user and no userId attached.
\<close>

theorem missing_token_rejected:
  assumes "authorization req = None
         \<or> (\<exists>h. authorization req = Some h
                \<and> (\<not> startsWith h ''Bearer ''
                   \<or> takeWhile (\<lambda>c. c \<noteq> CHR '' '') (drop 7 h) = []))"
  shows "auth e j q req = Fail (ApiError 401 ''Authorization token required'') req
       \<and> status (errorHandler e (ApiError 401 ''Authorization token required'')) = 401
       \<and> optionalAuth e j q req = Next req"
  using assms
  by (auto simp: auth_def optionalAuth_def errorHandler_def header_token_Bearer)

theorem missing_token_rejected_witness:
  "authorization (bearer []) = Some ''Bearer ''
 \<and> takeWhile (\<lambda>c. c \<noteq> CHR '' '') (drop 7 ''Bearer '') = []
 \<and> user (bearer []) = None \<and> userId (bearer []) = None
 \<and> auth example_env example_jwt (profile_by_id example_db) (bearer []) =
       Fail (ApiError 401 ''Authorization token required'') (bearer [])
 \<and> status (errorHandler example_env (ApiError 401 ''Authorization token required'')) = 401
 \<and> optionalAuth example_env example_jwt (profile_by_id example_db) (bearer []) = Next (bearer [])"
proof -
  have h: "authorization (bearer []) = None
         \<or> (\<exists>h. authorization (bearer []) = Some h
                \<and> (\<not> startsWith h ''Bearer ''
                   \<or> takeWhile (\<lambda>c. c \<noteq> CHR '' '') (drop 7 h) = []))"
    by (simp add: bearer_def)
  from missing_token_rejected [OF h, of example_env example_jwt "profile_by_id example_db"]
  show ?thesis by (simp add: bearer_def)
qed

text \<open>
  C6. For every token that verifies successfully (\<open>auth\<close> finds the subject \<open>uid\<close>)
  while the user store has no record for \<open>uid\<close>, strict authentication fails with 401
  and optional authentication continues with the request as it arrived.
\<close>

theorem unknown_subject_rejected:
  assumes "authorization req = Some h" "startsWith h ''Bearer ''" "header_token h = Some token" "token \<noteq> []"
    and "auth_subject e j token = Inr uid"
    and "data (q uid) = None"
  shows "auth e j q req = Fail (ApiError 401 ''Invalid or expired token'') req
       \<and> status (errorHandler e (ApiError 401 ''Invalid or expired token'')) = 401
       \<and> optionalAuth e j q req = Next req"
  using assms(5,6) optional_subject_of_auth_subject [OF assms(5)]
  by (simp add: auth_on_token [OF assms(1-4)] optionalAuth_on_token [OF assms(1-4)]
      auth_try_def getUserById_def errorHandler_def split: option.splits)

theorem unknown_subject_rejected_witness:
  "authorization (bearer ''ghost'') = Some (''Bearer '' @ ''ghost'')
 \<and> startsWith (''Bearer '' @ ''ghost'') ''Bearer ''
 \<and> header_token (''Bearer '' @ ''ghost'') = Some ''ghost''
 \<and> auth_subject example_env example_jwt ''ghost'' = Inr ''u9''
 \<and> data (profile_by_id example_db ''u9'') = None
 \<and> auth example_env example_jwt (profile_by_id example_db) (bearer ''ghost'') =
       Fail (ApiError 401 ''Invalid or expired token'') (bearer ''ghost'')
 \<and> optionalAuth example_env example_jwt (profile_by_id example_db) (bearer ''ghost'') = Next (bearer ''ghost'')"
proof -
  have 1: "authorization (bearer ''ghost'') = Some (''Bearer '' @ ''ghost'')" by (simp add: bearer_def)
  have 2: "startsWith (''Bearer '' @ ''ghost'') ''Bearer ''" by (simp add: startsWith_def)
  have 3: "header_token (''Bearer '' @ ''ghost'') = Some ''ghost''" by (rule header_token_of_bearer) simp
  have 4: "''ghost'' \<noteq> []" by simp
  have 5: "auth_subject example_env example_jwt ''ghost'' = Inr ''u9''" by (rule example_subjects)
  have 6: "data (profile_by_id example_db ''u9'') = None" by (simp add: example_profiles)
  from unknown_subject_rejected [where q = "profile_by_id example_db" and uid = "''u9''", OF 1 2 3 4 5 6]
    1 2 3 5 6
  show ?thesis by simp
qed

text \<open>
  C7. On a request that arrives with no identity, at the end of either authenticator
  the fields \<open>user\<close> and \<open>userId\<close> are both set or both absent; and whenever
  \<open>userId\<close> is set, \<open>getUserById\<close> resolved a record for that request, \<open>user\<close> is
  that record and \<open>userId\<close> is its id.
\<close>

theorem context_fields_set_together:
  assumes "user req = None" and "userId req = None"
    and "out = auth e j (profile_by_id d) req \<or> out = optionalAuth e j (profile_by_id d) req"
  shows "(user (request_of out) = None \<longleftrightarrow> userId (request_of out) = None)
       \<and> (\<forall>v. userId (request_of out) = Some v \<longrightarrow>
            (\<exists>uid u. getUserById (profile_by_id d) uid = Inr (Some u)
                   \<and> user (request_of out) = Some u \<and> u ''id'' = Some v))"
proof -
  have shape: "request_of out = req
      \<or> (\<exists>uid u. getUserById (profile_by_id d) uid = Inr (Some u)
                \<and> request_of out = req\<lparr>user := Some u, userId := u ''id''\<rparr>)"
    using assms(3)
  proof
    assume "out = auth e j (profile_by_id d) req"
    with auth_cases [of e j "profile_by_id d" req] show ?thesis
      by (elim disjE exE conjE) (simp, metis request_of.simps(1))
  next
    assume "out = optionalAuth e j (profile_by_id d) req"
    with optionalAuth_cases [of e j "profile_by_id d" req] show ?thesis
      by (elim disjE exE conjE) (simp, metis request_of.simps(1))
  qed
  then show ?thesis
  proof
    assume "request_of out = req"
    with assms(1,2) show ?thesis by simp
  next
    assume "\<exists>uid u. getUserById (profile_by_id d) uid = Inr (Some u)
                \<and> request_of out = req\<lparr>user := Some u, userId := u ''id''\<rparr>"
    then obtain uid u where g: "getUserById (profile_by_id d) uid = Inr (Some u)"
      and r: "request_of out = req\<lparr>user := Some u, userId := u ''id''\<rparr>" by blast
    from getUserById_profile_id [OF g] r g show ?thesis by auto
  qed
qed

theorem context_fields_set_together_witness:
  "user (bearer ''p1'') = None \<and> userId (bearer ''p1'') = None
 \<and> userId (request_of (auth example_env example_jwt (profile_by_id example_db) (bearer ''p1''))) = Some (JStr ''u1'')
 \<and> user (request_of (auth example_env example_jwt (profile_by_id example_db) (bearer ''p1''))) \<noteq> None
 \<and> (\<exists>uid u. getUserById (profile_by_id example_db) uid = Inr (Some u)
       \<and> user (request_of (auth example_env example_jwt (profile_by_id example_db) (bearer ''p1''))) = Some u
       \<and> u ''id'' = Some (JStr ''u1''))"
proof -
  have 1: "user (bearer ''p1'') = None" and 2: "userId (bearer ''p1'') = None"
    by (simp_all add: bearer_def)
  have 3: "auth example_env example_jwt (profile_by_id example_db) (bearer ''p1'')
             = auth example_env example_jwt (profile_by_id example_db) (bearer ''p1'')
         \<or> auth example_env example_jwt (profile_by_id example_db) (bearer ''p1'')
             = optionalAuth example_env example_jwt (profile_by_id example_db) (bearer ''p1'')"
    by simp
  have 4: "userId (request_of (auth example_env example_jwt (profile_by_id example_db) (bearer ''p1'')))
             = Some (JStr ''u1'')"
    by (simp add: example_auth)
  from context_fields_set_together [OF 1 2 3] 1 2 4 show ?thesis by auto
qed

text \<open>
  C8. Claim: a token whose payload contains both \<open>sub\<close> and \<open>id\<close> is always routed to
  the platform branch. The branch test is the truthiness of \<open>sub\<close>, not its presence:
  the token \<open>nosub\<close> contains both claims, with the empty string as \<open>sub\<close>; it does not
  verify under the platform secret, it is accepted by \<open>auth\<close> with the subject taken
  from \<open>id\<close>, and it is refused once the local secret is taken away.
\<close>

theorem empty_sub_routes_to_local:
  "(\<exists>p. jwt_decode example_jwt ''nosub'' = DObject p \<and> p ''sub'' = Some [] \<and> p ''id'' = Some ''u2'')
 \<and> \<not> jwt_verify example_jwt ''nosub'' ''platform-secret''
 \<and> auth_subject example_env example_jwt ''nosub'' = Inr ''u2''
 \<and> auth example_env example_jwt (profile_by_id example_db) (bearer ''nosub'') =
       Next ((bearer ''nosub'')\<lparr>user := Some profile_u2, userId := Some (JStr ''u2'')\<rparr>)
 \<and> auth (example_env\<lparr>JWT_SECRET := None\<rparr>) example_jwt (profile_by_id example_db) (bearer ''nosub'') =
       Fail (ApiError 401 ''Invalid or expired token'') (bearer ''nosub'')"
proof -
  have 1: "auth_subject (example_env\<lparr>JWT_SECRET := None\<rparr>) example_jwt ''nosub'' =
     Inl (ApiError 500 ''JWT secret not configured'')"
    by (simp add: auth_subject_def example_env_def example_jwt_def)
  have 2: "\<exists>p. jwt_decode example_jwt ''nosub'' = DObject p \<and> p ''sub'' = Some [] \<and> p ''id'' = Some ''u2''"
    by (simp add: example_jwt_def)
  have 3: "\<not> jwt_verify example_jwt ''nosub'' ''platform-secret''"
    by (simp add: example_jwt_def)
  have 4: "auth (example_env\<lparr>JWT_SECRET := None\<rparr>) example_jwt (profile_by_id example_db) (bearer ''nosub'') =
       Fail (ApiError 401 ''Invalid or expired token'') (bearer ''nosub'')"
    by (simp add: 1 auth_bearer auth_try_def)
  from 2 3 4 show ?thesis by (simp add: example_subjects example_auth)
qed

text \<open>
  C8, as the code has it: for every token whose payload has a non-empty \<open>sub\<close>, whether
  or not it also has an \<open>id\<close>, both authenticators take the subject from \<open>sub\<close> and
  neither consults the local secret; strict authentication continues only when the
  platform secret is configured and the token verifies against it.
\<close>

theorem sub_branch_takes_precedence:
  assumes "authorization req = Some h" "startsWith h ''Bearer ''" "header_token h = Some token" "token \<noteq> []"
    and "jwt_decode j token = DObject p" and "p ''sub'' = Some s" and "s \<noteq> []"
  shows "(\<forall>req'. auth e j q req = Next req' \<longrightarrow>
            (\<exists>k. SUPABASE_JWT_SECRET e = Some k \<and> jwt_verify j token k)
            \<and> getUserById q s = Inr (user req'))
       \<and> (\<forall>x. auth (e\<lparr>JWT_SECRET := x\<rparr>) j q req = auth e j q req)
       \<and> (\<forall>req'. optionalAuth e j q req = Next req' \<longrightarrow> req' = req \<or> getUserById q s = Inr (user req'))
       \<and> (\<forall>x. optionalAuth (e\<lparr>JWT_SECRET := x\<rparr>) j q req = optionalAuth e j q req)"
  using assms(5-7)
  by (auto simp: auth_on_token [OF assms(1-4)] optionalAuth_on_token [OF assms(1-4)]
      auth_try_def auth_subject_def optional_subject_def
      split: sum.splits option.splits if_splits dest: truthy_str_the)

theorem sub_branch_takes_precedence_witness:
  "authorization (bearer ''both'') = Some (''Bearer '' @ ''both'')
 \<and> header_token (''Bearer '' @ ''both'') = Some ''both''
 \<and> jwt_decode example_jwt ''both'' = DObject [''sub'' \<mapsto> ''u1'', ''id'' \<mapsto> ''u2'']
 \<and> auth example_env example_jwt (profile_by_id example_db) (bearer ''both'') =
       Next ((bearer ''both'')\<lparr>user := Some profile_u1, userId := Some (JStr ''u1'')\<rparr>)
 \<and> (\<exists>k. SUPABASE_JWT_SECRET example_env = Some k \<and> jwt_verify example_jwt ''both'' k)
 \<and> getUserById (profile_by_id example_db) ''u1'' = Inr (Some profile_u1)
 \<and> auth (example_env\<lparr>JWT_SECRET := None\<rparr>) example_jwt (profile_by_id example_db) (bearer ''both'') =
       auth example_env example_jwt (profile_by_id example_db) (bearer ''both'')"
proof -
  have 1: "authorization (bearer ''both'') = Some (''Bearer '' @ ''both'')" by (simp add: bearer_def)
  have 2: "startsWith (''Bearer '' @ ''both'') ''Bearer ''" by (simp add: startsWith_def)
  have 3: "header_token (''Bearer '' @ ''both'') = Some ''both''" by (rule header_token_of_bearer) simp
  have 4: "''both'' \<noteq> []" by simp
  have 5: "jwt_decode example_jwt ''both'' = DObject [''sub'' \<mapsto> ''u1'', ''id'' \<mapsto> ''u2'']"
    by (simp add: example_jwt_def)
  have 6: "[''sub'' \<mapsto> ''u1'', ''id'' \<mapsto> ''u2''] ''sub'' = Some ''u1''" by simp
  have 7: "''u1'' \<noteq> []" by simp
  have a: "auth example_env example_jwt (profile_by_id example_db) (bearer ''both'') =
       Next ((bearer ''both'')\<lparr>user := Some profile_u1, userId := Some (JStr ''u1'')\<rparr>)"
    by (rule example_auth)
  from sub_branch_takes_precedence [where q = "profile_by_id example_db" and e = example_env, OF 1 2 3 4 5 6 7]
    1 3 5 a
  show ?thesis by auto
qed

text \<open>
  C9. The dream read endpoints make no ownership test. For every request that passes
  \<open>auth\<close>, whoever the requester and whatever the role, on a working datastore:
  \<open>GET /api/dreams\<close> answers 200 with exactly the dreams whose \<open>user_id\<close> is the
  \<open>userId\<close> of the query string (when it is not empty), and \<open>GET /api/dreams/:id\<close>
  (validation passed) answers 200 with the dream of that id whenever it exists, whoever
  owns it.
\<close>

theorem dream_reads_unrestricted:
  assumes "auth e j (profile_by_id d) req = Next req'" and "fault d = None"
  shows "(uid \<noteq> [] \<longrightarrow>
            with_auth e j d req (get_dreams d (Some uid)) =
              (\<lparr> status = 200,
                 json = JsonList (filter (\<lambda>r. r ''user_id'' = Some (JStr uid)) (tables d Dreams)) 0 \<rparr>, d))
       \<and> (filter (\<lambda>r. r ''id'' = Some (JStr ident)) (tables d Dreams) = [dream] \<longrightarrow>
            with_auth e j d req (get_dream d [] ident) =
              (\<lparr> status = 200, json = JsonData (Some dream) \<rparr>, d))"
  using assms(2)
  by (simp add: with_auth_Next [OF assms(1)] get_dreams_def get_dream_def select_eq_def
      select_eq_single_def matching_def single_def)

theorem dream_reads_unrestricted_witness:
  "auth example_env example_jwt (profile_by_id example_db) (bearer ''l2'') =
     Next ((bearer ''l2'')\<lparr>user := Some profile_u2, userId := Some (JStr ''u2'')\<rparr>)
 \<and> fault example_db = None
 \<and> dream_d1 ''user_id'' = Some (JStr ''u1'')
 \<and> filter (\<lambda>r. r ''id'' = Some (JStr ''d1'')) (tables example_db Dreams) = [dream_d1]
 \<and> with_auth example_env example_jwt example_db (bearer ''l2'') (get_dreams example_db (Some ''u1'')) =
     (\<lparr> status = 200, json = JsonList [dream_d1] 0 \<rparr>, example_db)
 \<and> with_auth example_env example_jwt example_db (bearer ''l2'') (get_dream example_db [] ''d1'') =
     (\<lparr> status = 200, json = JsonData (Some dream_d1) \<rparr>, example_db)"
proof -
  have a: "auth example_env example_jwt (profile_by_id example_db) (bearer ''l2'') =
     Next ((bearer ''l2'')\<lparr>user := Some profile_u2, userId := Some (JStr ''u2'')\<rparr>)"
    by (rule example_auth)
  have f: "fault example_db = None" by (simp add: example_db_def)
  have t: "tables example_db Dreams = [dream_d1]" by (simp add: example_db_def)
  from dream_reads_unrestricted [OF a f, of "''u1''" "''d1''" dream_d1] a f
  show ?thesis by (simp add: t example_rows)
qed



end
